theory Spec2Isabelle
  imports Complex_Main
begin

section \<open>Data model\<close>

text \<open>
  The kinetic model of the L11 notebook (Razumova et al., 2000) and of the compiled
  widget module \<^verbatim>\<open>L11_widgets\<close>. Python floats are idealised as real numbers: the
  arithmetic below is exact, rounding is not modelled. The one place where the float
  semantics decides the outcome, the division \<^verbatim>\<open>1 / t_half\<close> by a numpy scalar that
  may be zero, is modelled with an explicit result type.

  The parameter tuple is \<^verbatim>\<open>(R_T, k_on, k_off, f, f_prime, h, h_prime, g)\<close>, in the order
  in which the notebook builds \<^verbatim>\<open>params\<close> and in which \<^verbatim>\<open>rhs\<close> receives it.
\<close>

type_synonym params = "real \<times> real \<times> real \<times> real \<times> real \<times> real \<times> real \<times> real"

text \<open>
  The exceptions of the model: a failed unpacking, an index out of range, an operation on
  a value of the wrong kind (or a call with the wrong number of arguments), and an
  unbound name.
\<close>

datatype error = ValueError | IndexError | TypeError | NameError

text \<open>A numpy \<^verbatim>\<open>float64\<close> result: a finite value, an infinity or not-a-number.\<close>

datatype float64 = Finite real | PosInf | NegInf | NaN

section \<open>The derivative function\<close>

text \<open>
  \<^verbatim>\<open>
  def rhs(y, t, R_T, k_on, k_off, f, f_prime,  h, h_prime, g):
      D, A_1, A_2 = y
      dD_dt = k_on*(R_T - D - A_1 - A_2)+f_prime*A_1+g*A_2-(k_off+f)*D
      dA1_dt = f*D+h_prime*A_2-(f_prime+h)*A_1
      dA2_dt = h*A_1-(h_prime+g)*A_2
      return [dD_dt, dA1_dt, dA2_dt]
  \<close>
  The unpacking of \<^verbatim>\<open>y\<close> raises ValueError unless \<^verbatim>\<open>y\<close> has exactly three items.
  \<^verbatim>\<open>ReactionWidget.rhs\<close> of the widget module has the same body.
\<close>

fun rhs :: "real list \<Rightarrow> real \<Rightarrow> params \<Rightarrow> error + real list" where
  "rhs [D, A_1, A_2] t (R_T, k_on, k_off, f, f_prime, h, h_prime, g) =
     (let dD_dt = k_on * (R_T - D - A_1 - A_2) + f_prime * A_1 + g * A_2 - (k_off + f) * D;
          dA1_dt = f * D + h_prime * A_2 - (f_prime + h) * A_1;
          dA2_dt = h * A_1 - (h_prime + g) * A_2
      in Inr [dD_dt, dA1_dt, dA2_dt])"
| "rhs y t p = Inl ValueError"

text \<open>
  The implicit fourth state of the specification, \<^verbatim>\<open>R_off = R_T - D - A1 - A2\<close>, and the
  rate at which the mass-action scheme \<^verbatim>\<open>R_off <-> D\<close> changes it: sites enter
  \<^verbatim>\<open>R_off\<close> from \<^verbatim>\<open>D\<close> at rate \<^verbatim>\<open>k_off\<close> and leave it at rate \<^verbatim>\<open>k_on\<close>. Both follow
  the words of the specification; the code never stores either.
\<close>

definition R_off_spec :: "real \<Rightarrow> real \<Rightarrow> real \<Rightarrow> real \<Rightarrow> real" where
  "R_off_spec R_T D A_1 A_2 = R_T - D - A_1 - A_2"

definition dR_off_dt_spec :: "real \<Rightarrow> real \<Rightarrow> real \<Rightarrow> real \<Rightarrow> real \<Rightarrow> real \<Rightarrow> real" where
  "dR_off_dt_spec R_T k_on k_off D A_1 A_2 = k_off * D - k_on * R_off_spec R_T D A_1 A_2"

text \<open>
  The fixed point of the dynamics for a parameter tuple, as the list \<^verbatim>\<open>[D, A_1, A_2]\<close>: the
  state at which all three rates vanish when the rate constants are positive. The code
  never computes it; it is the steady-state value that a trajectory approaches.
\<close>

definition steady_state :: "params \<Rightarrow> real list" where
  "steady_state p =
     (case p of (R_T, k_on, k_off, f, f_prime, h, h_prime, g) \<Rightarrow>
        let K = f_prime * h_prime + f_prime * g + h * g;
            W = k_off * K + k_on * K + k_on * f * (h_prime + g) + k_on * f * h
        in [R_T * (k_on * K) / W, R_T * (k_on * f * (h_prime + g)) / W, R_T * (k_on * f * h) / W])"

subsection \<open>The body of the derivative function, statement by statement\<close>

text \<open>
  To speak about mutation, the statements of \<^verbatim>\<open>rhs\<close> are also given as syntax and run
  on an object store, as Python runs them. The store is the list of the sequence objects
  allocated so far (lists, tuples, arrays of numbers); a reference is an index into it. A
  name is bound to a number or to a reference.

  The statement forms are those a function over sequences of numbers is written with: the
  unpacking \<^verbatim>\<open>x1, ..., xn = y\<close>, the assignment \<^verbatim>\<open>x = a\<close> to a local name, the item
  assignment \<^verbatim>\<open>x[i] = a\<close>, which changes an object of the store in place, and
  \<^verbatim>\<open>return [a1, ..., an]\<close>, which builds a new list object. \<^verbatim>\<open>rhs\<close> has no item
  assignment; that it has none is what the purity theorem establishes from its body.
\<close>

type_synonym store = "real list list"

datatype expr = Var string | Add expr expr | Sub expr expr | Mul expr expr

datatype stmt =
    Unpack "string list" string
  | Assign string expr
  | SetItem string nat expr
  | Return "expr list"

datatype val = Number real | Ref nat

type_synonym env = "(string \<times> val) list"

fun eval :: "env \<Rightarrow> expr \<Rightarrow> error + real" where
  "eval env (Var x) =
     (case map_of env x of
        None \<Rightarrow> Inl NameError
      | Some (Ref a) \<Rightarrow> Inl TypeError
      | Some (Number r) \<Rightarrow> Inr r)"
| "eval env (Add a b) =
     (case eval env a of Inl e \<Rightarrow> Inl e | Inr u \<Rightarrow>
        (case eval env b of Inl e \<Rightarrow> Inl e | Inr v \<Rightarrow> Inr (u + v)))"
| "eval env (Sub a b) =
     (case eval env a of Inl e \<Rightarrow> Inl e | Inr u \<Rightarrow>
        (case eval env b of Inl e \<Rightarrow> Inl e | Inr v \<Rightarrow> Inr (u - v)))"
| "eval env (Mul a b) =
     (case eval env a of Inl e \<Rightarrow> Inl e | Inr u \<Rightarrow>
        (case eval env b of Inl e \<Rightarrow> Inl e | Inr v \<Rightarrow> Inr (u * v)))"

fun eval_list :: "env \<Rightarrow> expr list \<Rightarrow> error + real list" where
  "eval_list env [] = Inr []"
| "eval_list env (a # as) =
     (case eval env a of Inl e \<Rightarrow> Inl e | Inr u \<Rightarrow>
        (case eval_list env as of Inl e \<Rightarrow> Inl e | Inr us \<Rightarrow> Inr (u # us)))"

text \<open>
  Running a body: the result is the exception raised, or the reference returned (none when
  the body ends without \<^verbatim>\<open>return\<close>), together with the store the run leaves behind.
\<close>

fun exec :: "stmt list \<Rightarrow> env \<Rightarrow> store \<Rightarrow> (error + nat option) \<times> store" where
  "exec [] env st = (Inr None, st)"
| "exec (Unpack xs y # rest) env st =
     (case map_of env y of
        None \<Rightarrow> (Inl NameError, st)
      | Some (Number r) \<Rightarrow> (Inl TypeError, st)
      | Some (Ref a) \<Rightarrow>
          (if length (st ! a) = length xs
           then exec rest (zip xs (map Number (st ! a)) @ env) st
           else (Inl ValueError, st)))"
| "exec (Assign x a # rest) env st =
     (case eval env a of
        Inl e \<Rightarrow> (Inl e, st)
      | Inr u \<Rightarrow> exec rest ((x, Number u) # env) st)"
| "exec (SetItem x i a # rest) env st =
     (case map_of env x of
        None \<Rightarrow> (Inl NameError, st)
      | Some (Number r) \<Rightarrow> (Inl TypeError, st)
      | Some (Ref b) \<Rightarrow>
          (case eval env a of
             Inl e \<Rightarrow> (Inl e, st)
           | Inr u \<Rightarrow>
               (if i < length (st ! b)
                then exec rest env (st[b := (st ! b)[i := u]])
                else (Inl IndexError, st))))"
| "exec (Return as # rest) env st =
     (case eval_list env as of
        Inl e \<Rightarrow> (Inl e, st)
      | Inr us \<Rightarrow> (Inr (Some (length st)), st @ [us]))"

text \<open>The parameter names and the five statements of \<^verbatim>\<open>rhs\<close>, in the order of the source.\<close>

definition rhs_params :: "string list" where
  "rhs_params =
     [''y'', ''t'', ''R_T'', ''k_on'', ''k_off'', ''f'', ''f_prime'', ''h'', ''h_prime'', ''g'']"

definition rhs_body :: "stmt list" where
  "rhs_body =
     [Unpack [''D'', ''A_1'', ''A_2''] ''y'',
      Assign ''dD_dt''
        (Sub (Add (Add (Mul (Var ''k_on'')
                            (Sub (Sub (Sub (Var ''R_T'') (Var ''D'')) (Var ''A_1'')) (Var ''A_2'')))
                       (Mul (Var ''f_prime'') (Var ''A_1'')))
                  (Mul (Var ''g'') (Var ''A_2'')))
             (Mul (Add (Var ''k_off'') (Var ''f'')) (Var ''D''))),
      Assign ''dA1_dt''
        (Sub (Add (Mul (Var ''f'') (Var ''D'')) (Mul (Var ''h_prime'') (Var ''A_2'')))
             (Mul (Add (Var ''f_prime'') (Var ''h'')) (Var ''A_1''))),
      Assign ''dA2_dt''
        (Sub (Mul (Var ''h'') (Var ''A_1''))
             (Mul (Add (Var ''h_prime'') (Var ''g'')) (Var ''A_2''))),
      Return [Var ''dD_dt'', Var ''dA1_dt'', Var ''dA2_dt'']]"

text \<open>
  A call as the integrator makes it, \<^verbatim>\<open>func(y, t, *args)\<close>: \<^verbatim>\<open>y\<close> is passed by
  reference, \<^verbatim>\<open>t\<close> is a number, and the parameter set \<^verbatim>\<open>args\<close> is a tuple object of the
  store whose items are bound to the eight parameter names (any other number of items is
  a TypeError).
\<close>

definition rhs_call :: "store \<Rightarrow> nat \<Rightarrow> real \<Rightarrow> nat \<Rightarrow> (error + nat option) \<times> store" where
  "rhs_call st y t args =
     (if length (st ! args) = 8
      then exec rhs_body (zip rhs_params (Ref y # Number t # map Number (st ! args))) st
      else (Inl TypeError, st))"

text \<open>What the caller sees of a call: the exception, or the contents of the returned list.\<close>

definition returned :: "(error + nat option) \<times> store \<Rightarrow> error + real list option" where
  "returned r =
     (case fst r of
        Inl e \<Rightarrow> Inl e
      | Inr None \<Rightarrow> Inr None
      | Inr (Some a) \<Rightarrow> Inr (Some (snd r ! a)))"

section \<open>The rate of force development\<close>

text \<open>
  \<^verbatim>\<open>
  f_max = A_2[len(A_2)-1]
  f_half = (1-(1/e))*f_max
  index = 0
  while A_2[index] < f_half:
      index+=1
  t_half = time[index]
  ktr = 1 / t_half
  print("k_dev = ",ktr, " 1/sec")
  \<close>
  The loop: reading \<^verbatim>\<open>A_2[index]\<close> with \<^verbatim>\<open>index\<close> past the end raises IndexError.
\<close>

function scan :: "real list \<Rightarrow> real \<Rightarrow> nat \<Rightarrow> error + nat" where
  "scan A_2 f_half index =
     (if index < length A_2
      then (if A_2 ! index < f_half then scan A_2 f_half (index + 1) else Inr index)
      else Inl IndexError)"
  by pat_completeness auto
termination
  by (relation "measure (\<lambda>(A_2, f_half, index). length A_2 - index)") auto

declare scan.simps [simp del]

text \<open>
  \<^verbatim>\<open>time\<close> is a numpy array, so \<^verbatim>\<open>t_half\<close> is a numpy \<^verbatim>\<open>float64\<close> scalar, and dividing
  by a zero of that type does not raise: it yields an infinity (or not-a-number for
  \<^verbatim>\<open>0 / 0\<close>) and a warning.
\<close>

definition np_true_divide :: "real \<Rightarrow> real \<Rightarrow> float64" where
  "np_true_divide x y =
     (if y = 0 then (if 0 < x then PosInf else if x < 0 then NegInf else NaN)
      else Finite (x / y))"

text \<open>
  The cell as a function of the two arrays. \<^verbatim>\<open>A_2[len(A_2)-1]\<close> on an empty array is
  \<^verbatim>\<open>A_2[-1]\<close>, which raises IndexError; so does \<^verbatim>\<open>time[index]\<close> past the end of
  \<^verbatim>\<open>time\<close>. The result is the value printed after \<^verbatim>\<open>k_dev =\<close>.
\<close>

definition ktr :: "real list \<Rightarrow> real list \<Rightarrow> error + float64" where
  "ktr A_2 time =
     (if A_2 = [] then Inl IndexError
      else
        let f_max = A_2 ! (length A_2 - 1);
            f_half = (1 - (1 / exp 1)) * f_max
        in case scan A_2 f_half 0 of
             Inl err \<Rightarrow> Inl err
           | Inr index \<Rightarrow>
               (if index < length time
                then let t_half = time ! index in Inr (np_true_divide 1 t_half)
                else Inl IndexError))"

section \<open>The widget\<close>

text \<open>
  \<^verbatim>\<open>np.linspace(start, stop, num)\<close>: \<^verbatim>\<open>num\<close> evenly spaced samples over the closed
  interval from \<^verbatim>\<open>start\<close> to \<^verbatim>\<open>stop\<close>, computed as \<^verbatim>\<open>start + i * step\<close> with
  \<^verbatim>\<open>step = (stop - start) / (num - 1)\<close>.
\<close>

definition linspace :: "real \<Rightarrow> real \<Rightarrow> nat \<Rightarrow> real list" where
  "linspace start stop num =
     map (\<lambda>i. start + real i * ((stop - start) / real (num - 1))) [0..<num]"

text \<open>
  The integrator \<^verbatim>\<open>scipy.integrate.odeint(func, y0, t, args)\<close> is an external
  collaborator and a parameter of the model. It returns one row \<^verbatim>\<open>(D, A_1, A_2)\<close> for
  each requested time.
\<close>

type_synonym odeint =
  "(real list \<Rightarrow> real \<Rightarrow> params \<Rightarrow> error + real list) \<Rightarrow> real list \<Rightarrow> real list \<Rightarrow> params
     \<Rightarrow> (real \<times> real \<times> real) list"

text \<open>
  \<^verbatim>\<open>
  def solve_and_plot(self, k_on, f, h, g):
      self.k_on = k_on; self.f = f; self.h = h; self.g = g
      R_T = 1
      k_off = 50
      f_prime = 400
      h_prime = 6
      time = np.linspace(0, 10, 5000)
      params = (R_T, k_on, k_off, f, f_prime, h, h_prime, g)
      initial_condition = (0, 0, 0)
      solutions = odeint(self.rhs, initial_condition, time, params)
      D, A_1, A_2 = np.hsplit(solutions, 3)
      ... plotting ...
      f_max = A_2[len(A_2) - 1]
      f_half = (1 - 1/np.exp(1)) * f_max
      index = 0
      while A_2[index] < f_half:
          index += 1
      t_half = time[index]
      ktr = 1 / t_half
      print("k_dev = ", ktr, " 1/sec")
  \<close>
  (read from the code object of the compiled module: argument and local names from its
  name tables, numbers from its constant table). The first definition is the arguments
  that follow \<^verbatim>\<open>self.rhs\<close> in the call of \<^verbatim>\<open>odeint\<close>; the second is the whole method,
  its result the value it prints. Plotting is left out.
\<close>

definition solve_and_plot_args :: "real \<Rightarrow> real \<Rightarrow> real \<Rightarrow> real \<Rightarrow> real list \<times> real list \<times> params" where
  "solve_and_plot_args k_on f h g =
     (let R_T = 1; k_off = 50; f_prime = 400; h_prime = 6;
          time = linspace 0 10 5000;
          params = (R_T, k_on, k_off, f, f_prime, h, h_prime, g);
          initial_condition = [0, 0, 0]
      in (initial_condition, time, params))"

definition solve_and_plot :: "odeint \<Rightarrow> real \<Rightarrow> real \<Rightarrow> real \<Rightarrow> real \<Rightarrow> error + float64" where
  "solve_and_plot odeint_fn k_on f h g =
     (case solve_and_plot_args k_on f h g of
        (initial_condition, time, params) \<Rightarrow>
          let solutions = odeint_fn rhs initial_condition time params;
              A_2 = map (\<lambda>(D, A_1, A_2). A_2) solutions
          in ktr A_2 time)"

text \<open>
  \<^verbatim>\<open>
  def display(self):
      widget = interact(self.solve_and_plot,
                        k_on=FloatSlider(...), f=FloatSlider(...),
                        h=FloatSlider(...), g=FloatSlider(...))
  \<close>
  The keyword names under which \<^verbatim>\<open>display\<close> binds one slider each to the arguments of
  \<^verbatim>\<open>solve_and_plot\<close>.
\<close>

definition display :: "string list" where
  "display = [''k_on'', ''f'', ''h'', ''g'']"

section \<open>Auxiliary facts\<close>

text \<open>The threshold factor \<open>1 - 1/e\<close> lies strictly between 0 and 1.\<close>

lemma f_half_le_f_max: "0 \<le> x \<Longrightarrow> (1 - 1 / exp (1::real)) * x \<le> x"
  by (simp add: mult_left_le_one_le)

text \<open>
  The loop, started at \<open>k\<close>, stops at the first index from \<open>k\<close> on whose sample is not
  below the threshold, and runs off the end when there is none.
\<close>

lemma scan_first:
  assumes "i < length A" "\<not> A ! i < fh" "\<forall>j<i. k \<le> j \<longrightarrow> A ! j < fh" "k \<le> i"
  shows "scan A fh k = Inr i"
  using assms
proof (induction A fh k rule: scan.induct)
  case (1 A fh k)
  show ?case
  proof (cases "k = i")
    case True
    with 1 show ?thesis by (subst scan.simps) simp
  next
    case False
    with 1 have lt: "k < i" by simp
    with 1 have "A ! k < fh" "k < length A" by auto
    moreover have "scan A fh (k + 1) = Inr i" using 1 lt by auto
    ultimately show ?thesis by (subst scan.simps) simp
  qed
qed

lemma scan_none:
  assumes "\<forall>j<length A. k \<le> j \<longrightarrow> A ! j < fh"
  shows "scan A fh k = Inl IndexError"
  using assms
proof (induction A fh k rule: scan.induct)
  case (1 A fh k)
  show ?case
  proof (cases "k < length A")
    case True
    with 1 show ?thesis by (subst scan.simps) auto
  next
    case False
    then show ?thesis by (subst scan.simps) simp
  qed
qed

lemma scan_Inl:
  "scan A fh k = Inl e \<Longrightarrow> \<forall>j. k \<le> j \<and> j < length A \<longrightarrow> A ! j < fh"
proof (induction A fh k rule: scan.induct)
  case (1 A fh k)
  show ?case
  proof (cases "k < length A")
    case True
    show ?thesis
    proof (cases "A ! k < fh")
      case lt: True
      then have "scan A fh (k + 1) = Inl e"
        using 1(2) True by (subst (asm) scan.simps) simp
      with 1(1) True lt have IH: "\<forall>j. k + 1 \<le> j \<and> j < length A \<longrightarrow> A ! j < fh"
        by simp
      show ?thesis
      proof (intro allI impI)
        fix j assume "k \<le> j \<and> j < length A"
        then show "A ! j < fh" using IH lt by (cases "j = k") auto
      qed
    next
      case False
      then show ?thesis using 1(2) True by (subst (asm) scan.simps) simp
    qed
  next
    case False
    then show ?thesis by simp
  qed
qed

lemma scan_Inr_in_bounds: "scan A fh k = Inr i \<Longrightarrow> i < length A"
proof (induction A fh k rule: scan.induct)
  case (1 A fh k)
  from 1(2) show ?case
    by (subst (asm) scan.simps) (auto split: if_splits intro: 1(1))
qed

text \<open>The time grid: its length and its two ends.\<close>

lemma linspace_length: "length (linspace start stop num) = num"
  by (simp add: linspace_def)

lemma linspace_first: "0 < num \<Longrightarrow> linspace start stop num ! 0 = start"
  by (simp add: linspace_def)

lemma linspace_last: "1 < num \<Longrightarrow> last (linspace start stop num) = stop"
  by (simp add: linspace_def last_map)

text \<open>
  A run of the body of \<^verbatim>\<open>rhs\<close>: with three items in \<^verbatim>\<open>y\<close> and eight parameters it
  appends one list to the store and returns it; otherwise it raises and leaves the store
  as it was. The returned list is the one the function \<open>rhs\<close> computes.
\<close>

lemma rhs_call_run:
  assumes "st ! y = [D, A1, A2]"
    and "st ! args = [R_T, k_on, k_off, f, f_prime, h, h_prime, g]"
  shows "rhs_call st y t args =
    (Inr (Some (length st)),
     st @ [[k_on * (R_T - D - A1 - A2) + f_prime * A1 + g * A2 - (k_off + f) * D,
            f * D + h_prime * A2 - (f_prime + h) * A1,
            h * A1 - (h_prime + g) * A2]])"
  using assms by (simp add: rhs_call_def rhs_body_def rhs_params_def)

lemma rhs_call_unpack_error:
  assumes "length (st ! args) = 8" and "length (st ! y) \<noteq> 3"
  shows "rhs_call st y t args = (Inl ValueError, st)"
  using assms by (simp add: rhs_call_def rhs_body_def rhs_params_def)

lemma rhs_call_arity_error:
  assumes "length (st ! args) \<noteq> 8"
  shows "rhs_call st y t args = (Inl TypeError, st)"
  using assms by (simp add: rhs_call_def)

lemma length_3_conv: "length xs = 3 \<Longrightarrow> \<exists>a b c. xs = [a, b, c]"
  by (auto simp: numeral_eq_Suc length_Suc_conv)

lemma length_8_conv: "length xs = 8 \<Longrightarrow> \<exists>a b c d e f g h. xs = [a, b, c, d, e, f, g, h]"
  by (auto simp: numeral_eq_Suc length_Suc_conv)

lemma returned_run: "returned (Inr (Some (length st)), st @ [r]) = Inr (Some r)"
  by (simp add: returned_def)

lemma returned_error: "returned (Inl e, st) = Inl e"
  by (simp add: returned_def)

lemma rhs_call_refines_rhs:
  assumes "st ! args = [R_T, k_on, k_off, f, f_prime, h, h_prime, g]"
  shows "returned (rhs_call st y t args)
    = (case rhs (st ! y) t (R_T, k_on, k_off, f, f_prime, h, h_prime, g) of
         Inl e \<Rightarrow> Inl e
       | Inr dy \<Rightarrow> Inr (Some dy))"
proof (cases "length (st ! y) = 3")
  case True
  then obtain D A1 A2 where y: "st ! y = [D, A1, A2]"
    using length_3_conv by blast
  show ?thesis
    unfolding rhs_call_run [OF y assms] returned_run by (simp add: y)
next
  case False
  then have "rhs (st ! y) t (R_T, k_on, k_off, f, f_prime, h, h_prime, g) = Inl ValueError"
    by (cases "(st ! y, t, (R_T, k_on, k_off, f, f_prime, h, h_prime, g))" rule: rhs.cases)
      simp_all
  then show ?thesis
    using False assms by (simp add: rhs_call_unpack_error returned_error)
qed

text \<open>
  The item assignment of the statement language does change the store: a body that
  assigns to \<^verbatim>\<open>y[0]\<close> leaves the caller's object altered.
\<close>

lemma exec_SetItem_mutates:
  "exec [SetItem ''y'' 0 (Var ''t'')] [(''y'', Ref 0), (''t'', Number 7)] [[0, 0, 0]]
     = (Inr None, [[7, 0, 0]])"
  by simp

subsection \<open>Exact trajectories\<close>

text \<open>
  An exact trajectory is a triple of functions of time whose derivatives are the rates
  that \<open>rhs\<close> returns along it: what an integrator approximates. The facts below bound
  its distance from the fixed point by a decaying exponential.
\<close>

text \<open>At the fixed point all three rates are zero.\<close>

lemma rhs_steady_state:
  assumes "0 < k_on" "0 < k_off" "0 < f" "0 < f_prime" "0 < h" "0 < h_prime" "0 < g"
  shows "rhs (steady_state (R_T, k_on, k_off, f, f_prime, h, h_prime, g)) t
           (R_T, k_on, k_off, f, f_prime, h, h_prime, g) = Inr [0, 0, 0]"
proof -
  define K where "K = f_prime * h_prime + f_prime * g + h * g"
  define W where "W = k_off * K + k_on * K + k_on * f * (h_prime + g) + k_on * f * h"
  define \<rho> where "\<rho> = R_T / W"
  have "0 < K" unfolding K_def using assms by (simp add: add_pos_pos)
  then have "0 < W" unfolding W_def using assms by (simp add: add_pos_pos)
  then have total: "R_T = \<rho> * W" unfolding \<rho>_def by simp
  have st: "steady_state (R_T, k_on, k_off, f, f_prime, h, h_prime, g)
      = [\<rho> * (k_on * K), \<rho> * (k_on * f * (h_prime + g)), \<rho> * (k_on * f * h)]"
    by (simp add: steady_state_def Let_def K_def W_def \<rho>_def)
  have zero: "k_on * (\<rho> * W - \<rho> * (k_on * K) - \<rho> * (k_on * f * (h_prime + g))
          - \<rho> * (k_on * f * h))
        + f_prime * (\<rho> * (k_on * f * (h_prime + g))) + g * (\<rho> * (k_on * f * h))
        - (k_off + f) * (\<rho> * (k_on * K)) = 0"
    "f * (\<rho> * (k_on * K)) + h_prime * (\<rho> * (k_on * f * h))
        - (f_prime + h) * (\<rho> * (k_on * f * (h_prime + g))) = 0"
    "h * (\<rho> * (k_on * f * (h_prime + g))) - (h_prime + g) * (\<rho> * (k_on * f * h)) = 0"
    unfolding W_def K_def by (simp_all add: algebra_simps)
  have "rhs [\<rho> * (k_on * K), \<rho> * (k_on * f * (h_prime + g)), \<rho> * (k_on * f * h)] t
      (\<rho> * W, k_on, k_off, f, f_prime, h, h_prime, g) = Inr [0, 0, 0]"
    unfolding rhs.simps Let_def zero ..
  then show ?thesis unfolding st total [symmetric] .
qed

lemma steady_state_notebook:
  "steady_state (1, 400, 50, 50, 400, 8, 6, 4) = [1008 / 1359, 125 / 1359, 100 / 1359]"
  by (simp add: steady_state_def Let_def)

text \<open>
  A quantity whose derivative is at most \<open>- c\<close> times itself decays at least like
  \<open>exp (- c t)\<close>.
\<close>

lemma exponential_decay:
  fixes V V' :: "real \<Rightarrow> real"
  assumes deriv: "\<And>t. 0 \<le> t \<Longrightarrow> t \<le> T \<Longrightarrow> (V has_real_derivative V' t) (at t)"
    and decr: "\<And>t. 0 \<le> t \<Longrightarrow> t \<le> T \<Longrightarrow> V' t \<le> - c * V t"
    and T: "0 \<le> T"
  shows "V T \<le> V 0 * exp (- c * T)"
proof -
  let ?W = "\<lambda>t. V t * exp (c * t)"
  have "?W T \<le> ?W 0"
  proof (rule DERIV_nonpos_imp_nonincreasing [OF T])
    fix t assume t: "0 \<le> t" "t \<le> T"
    have "(?W has_real_derivative (V' t * exp (c * t) + V t * (exp (c * t) * c))) (at t)"
      using deriv [OF t] by (auto intro!: derivative_eq_intros)
    moreover have "V' t * exp (c * t) + V t * (exp (c * t) * c) \<le> 0"
    proof -
      have "V' t * exp (c * t) + V t * (exp (c * t) * c) = (V' t + c * V t) * exp (c * t)"
        by (simp add: algebra_simps)
      moreover have "V' t + c * V t \<le> 0" using decr [OF t] by simp
      ultimately show ?thesis by (simp add: mult_le_0_iff)
    qed
    ultimately show "\<exists>y. (?W has_real_derivative y) (at t) \<and> y \<le> 0" by blast
  qed
  then have "V T * exp (c * T) \<le> V 0" by simp
  then have "V T \<le> V 0 / exp (c * T)"
    by (simp add: pos_le_divide_eq)
  then show ?thesis
    by (simp add: exp_minus divide_inverse)
qed

text \<open>
  For the notebook's parameters, with \<open>x1\<close>, \<open>x2\<close>, \<open>x3\<close> the distances of \<open>D\<close>, \<open>A_1\<close>,
  \<open>A_2\<close> from the fixed point, the weighted square \<open>x1\<^sup>2 + 5 x2\<^sup>2 + 20 x3\<^sup>2\<close> decays
  at rate 6: the quadratic form below is its derivative plus six times itself, negated.
\<close>

lemma notebook_form_nonneg:
  fixes x1 x2 x3 :: real
  shows "0 \<le> 994 * x1\<^sup>2 - 500 * x1 * x2 + 792 * x1 * x3 + 4050 * x2\<^sup>2 - 380 * x2 * x3 + 280 * x3\<^sup>2"
proof -
  have "994 * x1\<^sup>2 - 500 * x1 * x2 + 792 * x1 * x3 + 4050 * x2\<^sup>2 - 380 * x2 * x3 + 280 * x3\<^sup>2
      = (27 * x1 + 44 / 3 * x3)\<^sup>2 + (16 * x1 - 125 / 8 * x2)\<^sup>2 + (95 / 4 * x2 - 8 * x3)\<^sup>2
        + 9 * x1\<^sup>2 + 207475 / 64 * x2\<^sup>2 + 8 / 9 * x3\<^sup>2"
    by (simp add: power2_eq_square algebra_simps)
  also have "0 \<le> \<dots>" by simp
  finally show ?thesis by simp
qed

lemma exp_minus_60: "exp (- 60 :: real) \<le> 1 / 2 ^ 60"
proof -
  have "(2::real) \<le> exp 1" using exp_ge_add_one_self [of "1::real"] by simp
  then have "(2::real) ^ 60 \<le> exp 1 ^ 60" by (intro power_mono) simp_all
  also have "\<dots> = exp (60 :: real)" using exp_of_nat_mult [of 60 "1::real"] by simp
  finally have "(2::real) ^ 60 \<le> exp 60" .
  then have "1 / exp (60::real) \<le> 1 / 2 ^ 60" by (intro divide_left_mono) simp_all
  then show ?thesis by (simp add: exp_minus inverse_eq_divide)
qed

lemma sq_le_one: "0 \<le> a \<Longrightarrow> a \<le> 1 \<Longrightarrow> 0 \<le> b \<Longrightarrow> b \<le> 1 \<Longrightarrow> (a - b)\<^sup>2 \<le> (1::real)"
proof -
  assume "0 \<le> a" "a \<le> 1" "0 \<le> b" "b \<le> 1"
  then have "\<bar>a - b\<bar> \<le> 1" by simp
  then have "\<bar>a - b\<bar>\<^sup>2 \<le> 1\<^sup>2" by (intro power_mono) simp_all
  then show ?thesis by simp
qed

text \<open>
  For arbitrary positive rate constants the four occupancies, each divided by its weight
  at the fixed point, are compared along the scheme \<^verbatim>\<open>R_off - D - A_1 - A_2\<close>: the
  weighted sum of their squares changes at minus a sum of squared differences
  (\<open>lyapunov_rate\<close>), and that sum of squared differences bounds the weighted sum of
  squares from above (\<open>poincare\<close>).
\<close>

lemma lyapunov_rate:
  fixes k_on k_off f f_prime h h_prime g uR uD u1 u2 \<rho> :: real
  defines "K \<equiv> f_prime * h_prime + f_prime * g + h * g"
  defines "wR \<equiv> k_off * K" and "wD \<equiv> k_on * K"
    and "w1 \<equiv> k_on * f * (h_prime + g)" and "w2 \<equiv> k_on * f * h"
  defines "dD \<equiv> k_on * (wR * (uR + \<rho>)) + f_prime * (w1 * (u1 + \<rho>)) + g * (w2 * (u2 + \<rho>))
                  - (k_off + f) * (wD * (uD + \<rho>))"
    and "dA1 \<equiv> f * (wD * (uD + \<rho>)) + h_prime * (w2 * (u2 + \<rho>)) - (f_prime + h) * (w1 * (u1 + \<rho>))"
    and "dA2 \<equiv> h * (w1 * (u1 + \<rho>)) - (h_prime + g) * (w2 * (u2 + \<rho>))"
  shows "2 * (uR * (- (dD + dA1 + dA2)) + uD * dD + u1 * dA1 + u2 * dA2)
       = - (2 * (k_on * wR) * (uR - uD)\<^sup>2 + (f * wD + f_prime * w1) * (uD - u1)\<^sup>2
            + (h * w1 + h_prime * w2) * (u1 - u2)\<^sup>2 + g * w2 * (u2 - uD)\<^sup>2)"
  unfolding K_def wR_def wD_def w1_def w2_def dD_def dA1_def dA2_def
  by (simp add: power2_eq_square algebra_simps)

lemma mean_zero_signs:
  fixes a b c d p q r s :: real
  assumes pos: "0 < a" "0 < b" "0 < c" "0 < d"
    and mean: "a * p + b * q + c * r + d * s = 0"
  shows "\<not> (0 < p \<and> 0 < q \<and> 0 < r \<and> 0 < s)" and "\<not> (p < 0 \<and> q < 0 \<and> r < 0 \<and> s < 0)"
proof -
  show "\<not> (0 < p \<and> 0 < q \<and> 0 < r \<and> 0 < s)"
  proof
    assume "0 < p \<and> 0 < q \<and> 0 < r \<and> 0 < s"
    with pos have "0 < a * p" "0 < b * q" "0 < c * r" "0 < d * s" by simp_all
    with mean show False by linarith
  qed
  show "\<not> (p < 0 \<and> q < 0 \<and> r < 0 \<and> s < 0)"
  proof
    assume "p < 0 \<and> q < 0 \<and> r < 0 \<and> s < 0"
    with pos have "a * p < 0" "b * q < 0" "c * r < 0" "d * s < 0"
      by (simp_all add: mult_pos_neg)
    with mean show False by linarith
  qed
qed

lemma mean_zero_bound:
  fixes a b c d p q r s :: real
  assumes pos: "0 < a" "0 < b" "0 < c" "0 < d"
    and mean: "a * p + b * q + c * r + d * s = 0"
  shows "\<bar>p\<bar> \<le> \<bar>p - q\<bar> + \<bar>q - r\<bar> + \<bar>r - s\<bar>
    \<and> \<bar>q\<bar> \<le> \<bar>p - q\<bar> + \<bar>q - r\<bar> + \<bar>r - s\<bar>
    \<and> \<bar>r\<bar> \<le> \<bar>p - q\<bar> + \<bar>q - r\<bar> + \<bar>r - s\<bar>
    \<and> \<bar>s\<bar> \<le> \<bar>p - q\<bar> + \<bar>q - r\<bar> + \<bar>r - s\<bar>"
  using mean_zero_signs [OF pos mean] by argo

lemma sum3_sq: "(x + y + z)\<^sup>2 \<le> 3 * (x\<^sup>2 + y\<^sup>2 + z\<^sup>2)" for x y z :: real
proof -
  have "3 * (x\<^sup>2 + y\<^sup>2 + z\<^sup>2) - (x + y + z)\<^sup>2 = (x - y)\<^sup>2 + (y - z)\<^sup>2 + (x - z)\<^sup>2"
    by (simp add: power2_eq_square algebra_simps)
  moreover have "0 \<le> (x - y)\<^sup>2 + (y - z)\<^sup>2 + (x - z)\<^sup>2" by simp
  ultimately show ?thesis by linarith
qed

lemma sq_le_edges:
  fixes u d1 d2 d3 :: real
  assumes "\<bar>u\<bar> \<le> \<bar>d1\<bar> + \<bar>d2\<bar> + \<bar>d3\<bar>"
  shows "u\<^sup>2 \<le> 3 * (d1\<^sup>2 + d2\<^sup>2 + d3\<^sup>2)"
proof -
  have "\<bar>u\<bar>\<^sup>2 \<le> (\<bar>d1\<bar> + \<bar>d2\<bar> + \<bar>d3\<bar>)\<^sup>2"
    using assms by (intro power_mono) simp_all
  also have "\<dots> \<le> 3 * (\<bar>d1\<bar>\<^sup>2 + \<bar>d2\<bar>\<^sup>2 + \<bar>d3\<bar>\<^sup>2)" by (rule sum3_sq)
  finally show ?thesis by simp
qed

lemma poincare:
  fixes a b c d p q r s :: real
  assumes pos: "0 < a" "0 < b" "0 < c" "0 < d"
    and mean: "a * p + b * q + c * r + d * s = 0"
  shows "a * p\<^sup>2 + b * q\<^sup>2 + c * r\<^sup>2 + d * s\<^sup>2
    \<le> 3 * (a + b + c + d) * ((p - q)\<^sup>2 + (q - r)\<^sup>2 + (r - s)\<^sup>2)"
proof -
  let ?S = "(p - q)\<^sup>2 + (q - r)\<^sup>2 + (r - s)\<^sup>2"
  note b = mean_zero_bound [OF pos mean]
  have "p\<^sup>2 \<le> 3 * ?S" "q\<^sup>2 \<le> 3 * ?S" "r\<^sup>2 \<le> 3 * ?S" "s\<^sup>2 \<le> 3 * ?S"
    using b by (intro sq_le_edges; simp)+
  then have "a * p\<^sup>2 \<le> a * (3 * ?S)" "b * q\<^sup>2 \<le> b * (3 * ?S)"
    "c * r\<^sup>2 \<le> c * (3 * ?S)" "d * s\<^sup>2 \<le> d * (3 * ?S)"
    using pos by simp_all
  then have "a * p\<^sup>2 + b * q\<^sup>2 + c * r\<^sup>2 + d * s\<^sup>2
      \<le> a * (3 * ?S) + b * (3 * ?S) + c * (3 * ?S) + d * (3 * ?S)"
    by linarith
  also have "\<dots> = 3 * (a + b + c + d) * ?S" by (simp add: algebra_simps)
  finally show ?thesis .
qed

lemma weighted_square_deriv:
  fixes u :: "real \<Rightarrow> real"
  assumes "(u has_real_derivative d / w) (at t)" and "w \<noteq> 0"
  shows "((\<lambda>s. w * (u s)\<^sup>2) has_real_derivative 2 * (u t * d)) (at t)"
  using assms by (auto intro!: derivative_eq_intros simp: field_simps)

lemma A_2_decay:
  fixes D A_1 A_2 dD_dt dA1_dt dA2_dt :: "real \<Rightarrow> real"
  assumes pos: "0 < R_T" "0 < k_on" "0 < k_off" "0 < f" "0 < f_prime" "0 < h" "0 < h_prime" "0 < g"
    and ode: "\<forall>t\<ge>0. rhs [D t, A_1 t, A_2 t] t (R_T, k_on, k_off, f, f_prime, h, h_prime, g)
                  = Inr [dD_dt t, dA1_dt t, dA2_dt t]"
    and D: "\<forall>t\<ge>0. (D has_real_derivative dD_dt t) (at t)"
    and A_1: "\<forall>t\<ge>0. (A_1 has_real_derivative dA1_dt t) (at t)"
    and A_2: "\<forall>t\<ge>0. (A_2 has_real_derivative dA2_dt t) (at t)"
  shows "\<exists>C c. 0 < c \<and> (\<forall>t\<ge>0.
    (A_2 t - steady_state (R_T, k_on, k_off, f, f_prime, h, h_prime, g) ! 2)\<^sup>2 \<le> C * exp (- c * t))"
proof -
  define K where "K = f_prime * h_prime + f_prime * g + h * g"
  define wR where "wR = k_off * K"
  define wD where "wD = k_on * K"
  define w1 where "w1 = k_on * f * (h_prime + g)"
  define w2 where "w2 = k_on * f * h"
  define Wt where "Wt = wR + wD + w1 + w2"
  define \<rho> where "\<rho> = R_T / Wt"
  have K: "0 < K" unfolding K_def using pos by (simp add: add_pos_pos)
  have w: "0 < wR" "0 < wD" "0 < w1" "0 < w2"
    unfolding wR_def wD_def w1_def w2_def using pos K by (simp_all add: add_pos_pos)
  then have Wt: "0 < Wt" unfolding Wt_def by simp
  have total: "\<rho> * Wt = R_T" unfolding \<rho>_def using Wt by simp
  define pR where "pR t = R_T - D t - A_1 t - A_2 t" for t
  define uR where "uR t = pR t / wR - \<rho>" for t
  define uD where "uD t = D t / wD - \<rho>" for t
  define u1 where "u1 t = A_1 t / w1 - \<rho>" for t
  define u2 where "u2 t = A_2 t / w2 - \<rho>" for t
  have orig: "pR t = wR * (uR t + \<rho>)" "D t = wD * (uD t + \<rho>)"
    "A_1 t = w1 * (u1 t + \<rho>)" "A_2 t = w2 * (u2 t + \<rho>)" for t
    unfolding uR_def uD_def u1_def u2_def using w by simp_all
  have mean: "wR * uR t + wD * uD t + w1 * u1 t + w2 * u2 t = 0" for t
  proof -
    have "wR * uR t + wD * uD t + w1 * u1 t + w2 * u2 t
        = pR t + D t + A_1 t + A_2 t - \<rho> * Wt"
      unfolding uR_def uD_def u1_def u2_def Wt_def using w by (simp add: algebra_simps)
    then show ?thesis by (simp add: pR_def total)
  qed
  have rates: "dD_dt t = k_on * pR t + f_prime * A_1 t + g * A_2 t - (k_off + f) * D t"
    "dA1_dt t = f * D t + h_prime * A_2 t - (f_prime + h) * A_1 t"
    "dA2_dt t = h * A_1 t - (h_prime + g) * A_2 t" if "0 \<le> t" for t
  proof -
    from ode that have "rhs [D t, A_1 t, A_2 t] t (R_T, k_on, k_off, f, f_prime, h, h_prime, g)
        = Inr [dD_dt t, dA1_dt t, dA2_dt t]"
      by simp
    then show "dD_dt t = k_on * pR t + f_prime * A_1 t + g * A_2 t - (k_off + f) * D t"
      "dA1_dt t = f * D t + h_prime * A_2 t - (f_prime + h) * A_1 t"
      "dA2_dt t = h * A_1 t - (h_prime + g) * A_2 t"
      by (simp_all add: pR_def)
  qed
  define V where "V t = wR * (uR t)\<^sup>2 + wD * (uD t)\<^sup>2 + w1 * (u1 t)\<^sup>2 + w2 * (u2 t)\<^sup>2" for t
  define V' where "V' t = 2 * (uR t * (- (dD_dt t + dA1_dt t + dA2_dt t)) + uD t * dD_dt t
      + u1 t * dA1_dt t + u2 t * dA2_dt t)" for t
  define S where "S t = (uR t - uD t)\<^sup>2 + (uD t - u1 t)\<^sup>2 + (u1 t - u2 t)\<^sup>2" for t
  define m where "m = min (min (2 * (k_on * wR)) (f * wD + f_prime * w1)) (h * w1 + h_prime * w2)"
  define c where "c = m / (3 * Wt)"
  have m: "0 < m"
    unfolding m_def using pos w by (simp add: add_pos_pos)
  then have c: "0 < c" unfolding c_def using Wt by simp
  have V_deriv: "(V has_real_derivative V' t) (at t)" if "0 \<le> t" for t
  proof -
    have d: "(D has_real_derivative dD_dt t) (at t)"
      "(A_1 has_real_derivative dA1_dt t) (at t)"
      "(A_2 has_real_derivative dA2_dt t) (at t)"
      using D A_1 A_2 that by simp_all
    then have "(pR has_real_derivative (- (dD_dt t + dA1_dt t + dA2_dt t))) (at t)"
      unfolding pR_def [abs_def] by (auto intro!: derivative_eq_intros)
    then have "(uR has_real_derivative (- (dD_dt t + dA1_dt t + dA2_dt t)) / wR) (at t)"
      unfolding uR_def [abs_def] using w by (auto intro!: derivative_eq_intros)
    then have R: "((\<lambda>s. wR * (uR s)\<^sup>2) has_real_derivative
        2 * (uR t * (- (dD_dt t + dA1_dt t + dA2_dt t)))) (at t)"
      using w by (intro weighted_square_deriv) simp_all
    have "(uD has_real_derivative dD_dt t / wD) (at t)"
      unfolding uD_def [abs_def] using d w by (auto intro!: derivative_eq_intros)
    then have D': "((\<lambda>s. wD * (uD s)\<^sup>2) has_real_derivative 2 * (uD t * dD_dt t)) (at t)"
      using w by (intro weighted_square_deriv) simp_all
    have "(u1 has_real_derivative dA1_dt t / w1) (at t)"
      unfolding u1_def [abs_def] using d w by (auto intro!: derivative_eq_intros)
    then have A1': "((\<lambda>s. w1 * (u1 s)\<^sup>2) has_real_derivative 2 * (u1 t * dA1_dt t)) (at t)"
      using w by (intro weighted_square_deriv) simp_all
    have "(u2 has_real_derivative dA2_dt t / w2) (at t)"
      unfolding u2_def [abs_def] using d w by (auto intro!: derivative_eq_intros)
    then have A2': "((\<lambda>s. w2 * (u2 s)\<^sup>2) has_real_derivative 2 * (u2 t * dA2_dt t)) (at t)"
      using w by (intro weighted_square_deriv) simp_all
    have "V' t = 2 * (uR t * (- (dD_dt t + dA1_dt t + dA2_dt t))) + 2 * (uD t * dD_dt t)
        + 2 * (u1 t * dA1_dt t) + 2 * (u2 t * dA2_dt t)"
      unfolding V'_def by simp
    then show ?thesis
      unfolding V_def [abs_def] using DERIV_add [OF DERIV_add [OF DERIV_add [OF R D'] A1'] A2']
      by simp
  qed
  have V_rate: "V' t = - (2 * (k_on * wR) * (uR t - uD t)\<^sup>2
      + (f * wD + f_prime * w1) * (uD t - u1 t)\<^sup>2
      + (h * w1 + h_prime * w2) * (u1 t - u2 t)\<^sup>2 + g * w2 * (u2 t - uD t)\<^sup>2)"
    if "0 \<le> t" for t
    unfolding V'_def rates [OF that] orig [of t]
    unfolding wR_def wD_def w1_def w2_def K_def by (rule lyapunov_rate)
  have V_decr: "V' t \<le> - c * V t" if "0 \<le> t" for t
  proof -
    have "m * (uR t - uD t)\<^sup>2 \<le> 2 * (k_on * wR) * (uR t - uD t)\<^sup>2"
      "m * (uD t - u1 t)\<^sup>2 \<le> (f * wD + f_prime * w1) * (uD t - u1 t)\<^sup>2"
      "m * (u1 t - u2 t)\<^sup>2 \<le> (h * w1 + h_prime * w2) * (u1 t - u2 t)\<^sup>2"
      unfolding m_def by (intro mult_right_mono; simp)+
    moreover have "0 \<le> g * w2 * (u2 t - uD t)\<^sup>2"
      using pos w by simp
    ultimately have "m * S t \<le> - V' t"
      unfolding V_rate [OF that] S_def by (simp add: algebra_simps)
    moreover have "V t \<le> 3 * Wt * S t"
      unfolding V_def S_def Wt_def
      using poincare [OF w mean [of t]] by (simp add: algebra_simps)
    then have "c * V t \<le> c * (3 * Wt * S t)"
      using c by (intro mult_left_mono) simp_all
    moreover have "c * (3 * Wt * S t) = m * S t"
      unfolding c_def using Wt by simp
    ultimately show ?thesis by simp
  qed
  have V_bound: "V t \<le> V 0 * exp (- c * t)" if "0 \<le> t" for t
  proof (rule exponential_decay)
    show "(V has_real_derivative V' s) (at s)" if "0 \<le> s" "s \<le> t" for s
      using that by (intro V_deriv)
    show "V' s \<le> - c * V s" if "0 \<le> s" "s \<le> t" for s
      using that by (intro V_decr)
    show "0 \<le> t" by fact
  qed
  have "(A_2 t - \<rho> * w2)\<^sup>2 \<le> (w2 * V 0) * exp (- c * t)" if "0 \<le> t" for t
  proof -
    have "(A_2 t - \<rho> * w2)\<^sup>2 = w2 * (w2 * (u2 t)\<^sup>2)"
      unfolding orig [of t] by (simp add: power2_eq_square algebra_simps)
    also have "w2 * (u2 t)\<^sup>2 \<le> V t"
      unfolding V_def using w by simp
    then have "w2 * (w2 * (u2 t)\<^sup>2) \<le> w2 * V t"
      using w by (intro mult_left_mono) simp_all
    also have "\<dots> \<le> w2 * (V 0 * exp (- c * t))"
      using V_bound [OF that] w by (intro mult_left_mono) simp_all
    finally show ?thesis by (simp add: algebra_simps)
  qed
  moreover have "steady_state (R_T, k_on, k_off, f, f_prime, h, h_prime, g) ! 2 = \<rho> * w2"
    by (simp add: steady_state_def Let_def \<rho>_def Wt_def wR_def wD_def w1_def w2_def K_def)
  ultimately show ?thesis using c by auto
qed

lemma tendsto_of_square_decay:
  fixes F :: "real \<Rightarrow> real"
  assumes c: "0 < c" and bound: "\<forall>t\<ge>0. (F t - L)\<^sup>2 \<le> C * exp (- c * t)"
  shows "(F \<longlongrightarrow> L) at_top"
proof -
  have "filterlim (\<lambda>t. c * t) at_top at_top"
    using c by (intro filterlim_tendsto_pos_mult_at_top [where c = c]) (simp_all add: filterlim_ident)
  then have "filterlim (\<lambda>t. - (c * t)) at_bot at_top"
    by (simp add: filterlim_uminus_at_top [symmetric])
  then have "((\<lambda>t. exp (- (c * t))) \<longlongrightarrow> 0) at_top"
    by (rule filterlim_compose [OF exp_at_bot])
  then have "((\<lambda>t. C * exp (- (c * t))) \<longlongrightarrow> C * 0) at_top"
    by (intro tendsto_mult tendsto_const)
  then have upper: "((\<lambda>t. C * exp (- c * t)) \<longlongrightarrow> 0) at_top" by simp
  have "((\<lambda>t. (F t - L)\<^sup>2) \<longlongrightarrow> 0) at_top"
  proof (rule tendsto_sandwich [OF _ _ tendsto_const upper])
    show "\<forall>\<^sub>F t in at_top. 0 \<le> (F t - L)\<^sup>2" by simp
    show "\<forall>\<^sub>F t in at_top. (F t - L)\<^sup>2 \<le> C * exp (- c * t)"
      by (rule eventually_mono [OF eventually_ge_at_top [of 0]]) (use bound in simp)
  qed
  then have "((\<lambda>t. sqrt ((F t - L)\<^sup>2)) \<longlongrightarrow> sqrt 0) at_top"
    by (rule tendsto_real_sqrt)
  then have "((\<lambda>t. \<bar>F t - L\<bar>) \<longlongrightarrow> 0) at_top" by simp
  then have "((\<lambda>t. F t - L) \<longlongrightarrow> 0) at_top" by (rule tendsto_rabs_zero_cancel)
  then show ?thesis by (simp add: LIM_zero_iff)
qed

text \<open>
  From the zero state the third derivative of \<open>A_2\<close> at time 0 is \<open>h f k_on R_T\<close>, which
  is positive, while \<open>A_2\<close> and its first two derivatives vanish there; so \<open>A_2\<close> does not
  decrease on some interval after 0.
\<close>

lemma A_2_early_monotone:
  fixes D A_1 A_2 dD_dt dA1_dt dA2_dt :: "real \<Rightarrow> real"
  assumes pos: "0 < R_T" "0 < k_on" "0 < f" "0 < h"
    and ode: "\<forall>t\<ge>0. rhs [D t, A_1 t, A_2 t] t (R_T, k_on, k_off, f, f_prime, h, h_prime, g)
                  = Inr [dD_dt t, dA1_dt t, dA2_dt t]"
    and D: "\<forall>t\<ge>0. (D has_real_derivative dD_dt t) (at t)"
    and A_1: "\<forall>t\<ge>0. (A_1 has_real_derivative dA1_dt t) (at t)"
    and A_2: "\<forall>t\<ge>0. (A_2 has_real_derivative dA2_dt t) (at t)"
    and init: "D 0 = 0" "A_1 0 = 0" "A_2 0 = 0"
  shows "\<exists>\<epsilon>>0. \<forall>s t. 0 \<le> s \<and> s \<le> t \<and> t \<le> \<epsilon> \<longrightarrow> A_2 s \<le> A_2 t"
proof -
  define u where "u t = k_on * (R_T - D t - A_1 t - A_2 t) + f_prime * A_1 t + g * A_2 t
      - (k_off + f) * D t" for t
  define v where "v t = f * D t + h_prime * A_2 t - (f_prime + h) * A_1 t" for t
  define w where "w t = h * A_1 t - (h_prime + g) * A_2 t" for t
  define v1 where "v1 t = f * u t + h_prime * w t - (f_prime + h) * v t" for t
  define w1 where "w1 t = h * v t - (h_prime + g) * w t" for t
  define w2 where "w2 t = h * v1 t - (h_prime + g) * w1 t" for t
  have rates: "dD_dt t = u t" "dA1_dt t = v t" "dA2_dt t = w t" if "0 \<le> t" for t
  proof -
    from ode that have "rhs [D t, A_1 t, A_2 t] t (R_T, k_on, k_off, f, f_prime, h, h_prime, g)
        = Inr [dD_dt t, dA1_dt t, dA2_dt t]"
      by simp
    then show "dD_dt t = u t" "dA1_dt t = v t" "dA2_dt t = w t"
      by (simp_all add: u_def v_def w_def)
  qed
  have d: "(D has_real_derivative u t) (at t)" "(A_1 has_real_derivative v t) (at t)"
    "(A_2 has_real_derivative w t) (at t)" if "0 \<le> t" for t
    using D A_1 A_2 that rates [OF that] by auto
  have w_deriv: "(w has_real_derivative w1 t) (at t)" if "0 \<le> t" for t
  proof -
    have "((\<lambda>t. h * A_1 t - (h_prime + g) * A_2 t) has_real_derivative
        h * v t - (h_prime + g) * w t) (at t)"
      using d [OF that] by (auto intro!: derivative_eq_intros)
    then show ?thesis unfolding w1_def w_def [abs_def] .
  qed
  have v_deriv: "(v has_real_derivative v1 t) (at t)" if "0 \<le> t" for t
  proof -
    have "((\<lambda>t. f * D t + h_prime * A_2 t - (f_prime + h) * A_1 t) has_real_derivative
        f * u t + h_prime * w t - (f_prime + h) * v t) (at t)"
      using d [OF that] by (auto intro!: derivative_eq_intros)
    then show ?thesis unfolding v1_def v_def [abs_def] .
  qed
  have w1_deriv: "(w1 has_real_derivative w2 t) (at t)" if "0 \<le> t" for t
  proof -
    have "((\<lambda>t. h * v t - (h_prime + g) * w t) has_real_derivative
        h * v1 t - (h_prime + g) * w1 t) (at t)"
      using w_deriv [OF that] v_deriv [OF that] by (auto intro!: derivative_eq_intros)
    then show ?thesis unfolding w2_def w1_def [abs_def] .
  qed
  have "isCont D 0" "isCont A_1 0" "isCont A_2 0"
    using d [of 0] by (auto intro: DERIV_isCont)
  then have "isCont w2 0"
    unfolding w2_def [abs_def] v1_def [abs_def] w1_def [abs_def] u_def [abs_def]
      v_def [abs_def] w_def [abs_def]
    by (intro continuous_intros)
  moreover have w2_0: "0 < w2 0"
    unfolding w2_def v1_def w1_def u_def v_def w_def using init pos by simp
  ultimately have "\<forall>\<^sub>F t in at 0. 0 < w2 t"
    unfolding isCont_def by (rule order_tendstoD)
  then obtain \<delta> where \<delta>: "0 < \<delta>" "\<And>t. t \<noteq> 0 \<Longrightarrow> dist t 0 < \<delta> \<Longrightarrow> 0 < w2 t"
    unfolding eventually_at by blast
  define \<epsilon> where "\<epsilon> = \<delta> / 2"
  have \<epsilon>: "0 < \<epsilon>" unfolding \<epsilon>_def using \<delta> by simp
  have w2_pos: "0 \<le> w2 t" if "0 \<le> t" "t \<le> \<epsilon>" for t
  proof (cases "t = 0")
    case True
    then show ?thesis using w2_0 by simp
  next
    case False
    with that \<delta>(1) have "dist t 0 < \<delta>" by (simp add: \<epsilon>_def)
    with False have "0 < w2 t" by (intro \<delta>(2))
    then show ?thesis by simp
  qed
  have w1_0: "w1 0 = 0" unfolding w1_def v_def w_def using init by simp
  have w_0: "w 0 = 0" unfolding w_def using init by simp
  have w1_pos: "0 \<le> w1 t" if "0 \<le> t" "t \<le> \<epsilon>" for t
  proof -
    have "w1 0 \<le> w1 t"
    proof (rule DERIV_nonneg_imp_nondecreasing [OF that(1)])
      fix x assume "0 \<le> x" "x \<le> t"
      then show "\<exists>y. (w1 has_real_derivative y) (at x) \<and> 0 \<le> y"
        using w1_deriv [of x] w2_pos [of x] that by auto
    qed
    then show ?thesis by (simp add: w1_0)
  qed
  have w_pos: "0 \<le> w t" if "0 \<le> t" "t \<le> \<epsilon>" for t
  proof -
    have "w 0 \<le> w t"
    proof (rule DERIV_nonneg_imp_nondecreasing [OF that(1)])
      fix x assume "0 \<le> x" "x \<le> t"
      then show "\<exists>y. (w has_real_derivative y) (at x) \<and> 0 \<le> y"
        using w_deriv [of x] w1_pos [of x] that by auto
    qed
    then show ?thesis by (simp add: w_0)
  qed
  have "A_2 s \<le> A_2 t" if "0 \<le> s" "s \<le> t" "t \<le> \<epsilon>" for s t
  proof (rule DERIV_nonneg_imp_nondecreasing [OF that(2)])
    fix x assume "s \<le> x" "x \<le> t"
    then show "\<exists>y. (A_2 has_real_derivative y) (at x) \<and> 0 \<le> y"
      using d(3) [of x] w_pos [of x] that by auto
  qed
  with \<epsilon> show ?thesis by blast
qed

section \<open>Properties of the derivative function\<close>

text \<open>
  C1. For every real state \<open>(D, A1, A2)\<close> and every parameter tuple, with no validation
  and no clamping (there is no hypothesis on any of the eleven numbers), the derivative
  function returns exactly the three rates of the specification.
\<close>

theorem rhs_formula:
  "rhs [D, A1, A2] t (R_T, k_on, k_off, f, f_prime, h, h_prime, g) =
     Inr [k_on * (R_T - D - A1 - A2) + f_prime * A1 + g * A2 - (k_off + f) * D,
          f * D + h_prime * A2 - (f_prime + h) * A1,
          h * A1 - (h_prime + g) * A2]"
  by simp

text \<open>
  C3. Conservation. Let \<open>D\<close>, \<open>A_1\<close>, \<open>A_2\<close> be any trajectory of the dynamics: functions of
  time whose derivatives at every time are the three rates that the derivative function
  returns there, for a fixed parameter tuple. Then at every time the three rates add up to
  minus the rate of change of \<open>R_off\<close> under the mass-action scheme; \<open>R_off\<close>, derived
  as \<open>R_T - D - A_1 - A_2\<close>, changes at exactly that rate; and the total
  \<open>D + A_1 + A_2 + R_off\<close> equals \<open>R_T\<close> and has derivative zero.
\<close>

theorem conservation_law:
  fixes D A_1 A_2 dD_dt dA1_dt dA2_dt :: "real \<Rightarrow> real"
  assumes ode: "\<forall>t. rhs [D t, A_1 t, A_2 t] t (R_T, k_on, k_off, f, f_prime, h, h_prime, g)
                  = Inr [dD_dt t, dA1_dt t, dA2_dt t]"
    and D: "\<forall>t. (D has_real_derivative dD_dt t) (at t)"
    and A_1: "\<forall>t. (A_1 has_real_derivative dA1_dt t) (at t)"
    and A_2: "\<forall>t. (A_2 has_real_derivative dA2_dt t) (at t)"
  shows "dD_dt t + dA1_dt t + dA2_dt t = - dR_off_dt_spec R_T k_on k_off (D t) (A_1 t) (A_2 t)
    \<and> ((\<lambda>s. R_off_spec R_T (D s) (A_1 s) (A_2 s)) has_real_derivative
          dR_off_dt_spec R_T k_on k_off (D t) (A_1 t) (A_2 t)) (at t)
    \<and> D t + A_1 t + A_2 t + R_off_spec R_T (D t) (A_1 t) (A_2 t) = R_T
    \<and> ((\<lambda>s. D s + A_1 s + A_2 s + R_off_spec R_T (D s) (A_1 s) (A_2 s))
          has_real_derivative 0) (at t)"
proof -
  from ode have "rhs [D t, A_1 t, A_2 t] t (R_T, k_on, k_off, f, f_prime, h, h_prime, g)
      = Inr [dD_dt t, dA1_dt t, dA2_dt t]"
    by blast
  then have rates:
    "dD_dt t = k_on * (R_T - D t - A_1 t - A_2 t) + f_prime * A_1 t + g * A_2 t - (k_off + f) * D t"
    "dA1_dt t = f * D t + h_prime * A_2 t - (f_prime + h) * A_1 t"
    "dA2_dt t = h * A_1 t - (h_prime + g) * A_2 t"
    by simp_all
  have sum: "dD_dt t + dA1_dt t + dA2_dt t
      = - dR_off_dt_spec R_T k_on k_off (D t) (A_1 t) (A_2 t)"
    unfolding rates by (simp add: dR_off_dt_spec_def R_off_spec_def algebra_simps)
  have rate_eq: "0 - dD_dt t - dA1_dt t - dA2_dt t
      = dR_off_dt_spec R_T k_on k_off (D t) (A_1 t) (A_2 t)"
    using sum by simp
  have "((\<lambda>s. R_T - D s - A_1 s - A_2 s) has_real_derivative
          (0 - dD_dt t - dA1_dt t - dA2_dt t)) (at t)"
    using D A_1 A_2 by (intro DERIV_diff DERIV_const) simp_all
  then have roff: "((\<lambda>s. R_off_spec R_T (D s) (A_1 s) (A_2 s)) has_real_derivative
          dR_off_dt_spec R_T k_on k_off (D t) (A_1 t) (A_2 t)) (at t)"
    unfolding rate_eq R_off_spec_def .
  have total: "(\<lambda>s. D s + A_1 s + A_2 s + R_off_spec R_T (D s) (A_1 s) (A_2 s)) = (\<lambda>s. R_T)"
    by (simp add: R_off_spec_def)
  show ?thesis
    using sum roff by (simp add: total) (simp add: R_off_spec_def)
qed

text \<open>
  The theorem at the steady state of the notebook's parameters, a constant trajectory:
  there all three rates are zero.
\<close>

theorem conservation_law_witness:
  "rhs [1008 / 1359, 125 / 1359, 100 / 1359] 0 (1, 400, 50, 50, 400, 8, 6, 4) = Inr [0, 0, 0]
   \<and> dR_off_dt_spec 1 400 50 (1008 / 1359) (125 / 1359) (100 / 1359) = 0
   \<and> 1008 / 1359 + 125 / 1359 + 100 / 1359
       + R_off_spec 1 (1008 / 1359) (125 / 1359) (100 / 1359) = 1"
  using conservation_law [of "\<lambda>t. 1008 / 1359" "\<lambda>t. 125 / 1359" "\<lambda>t. 100 / 1359"
      1 400 50 50 400 8 6 4 "\<lambda>t. 0" "\<lambda>t. 0" "\<lambda>t. 0" 0]
  by (simp add: R_off_spec_def dR_off_dt_spec_def)

text \<open>
  C6. Purity. Run the body of the derivative function on any store in which the state
  vector \<open>y\<close> and the parameter set \<open>args\<close> are live objects. The run leaves every object
  of that store as it was, the state vector and the parameter set included (the returned
  list is a new object). What it returns depends on nothing but the contents of the state
  vector and of the parameter set: a call in another store \<open>st'\<close>, through other
  references and at another time \<open>t'\<close>, on objects with the same contents returns the
  same; and so does a second call made after the first.
\<close>

theorem rhs_call_pure:
  assumes live: "y < length st" "args < length st"
    and live': "y' < length st'" "args' < length st'"
    and same: "st' ! y' = st ! y" "st' ! args' = st ! args"
  shows "take (length st) (snd (rhs_call st y t args)) = st
    \<and> returned (rhs_call st' y' t' args') = returned (rhs_call st y t args)
    \<and> returned (rhs_call (snd (rhs_call st y t args)) y t args)
        = returned (rhs_call st y t args)"
proof (cases "length (st ! args) = 8")
  case False
  then show ?thesis
    using same by (simp add: rhs_call_arity_error returned_error)
next
  case arity: True
  show ?thesis
  proof (cases "length (st ! y) = 3")
    case False
    then show ?thesis
      using arity same by (simp add: rhs_call_unpack_error returned_error)
  next
    case True
    then obtain D A1 A2 where y: "st ! y = [D, A1, A2]"
      using length_3_conv by blast
    from arity obtain R_T k_on k_off f f_prime h h_prime g
      where args: "st ! args = [R_T, k_on, k_off, f, f_prime, h, h_prime, g]"
      using length_8_conv by blast
    let ?r = "[k_on * (R_T - D - A1 - A2) + f_prime * A1 + g * A2 - (k_off + f) * D,
               f * D + h_prime * A2 - (f_prime + h) * A1,
               h * A1 - (h_prime + g) * A2]"
    have first: "rhs_call st y t args = (Inr (Some (length st)), st @ [?r])"
      using y args by (rule rhs_call_run)
    have other: "rhs_call st' y' t' args' = (Inr (Some (length st')), st' @ [?r])"
      using y args same by (intro rhs_call_run) simp_all
    have "(st @ [?r]) ! y = [D, A1, A2]"
      and "(st @ [?r]) ! args = [R_T, k_on, k_off, f, f_prime, h, h_prime, g]"
      using live y args by (simp_all add: nth_append)
    then have again: "rhs_call (st @ [?r]) y t args
        = (Inr (Some (length (st @ [?r]))), (st @ [?r]) @ [?r])"
      by (rule rhs_call_run)
    show ?thesis
      unfolding first other by (simp only: snd_conv again returned_run) simp
  qed
qed

text \<open>
  The theorem at the zero state with the notebook's parameters: one call in a store that
  holds the state vector and the parameter tuple, another at time 7 in a store that holds
  them at other places, next to a third object.
\<close>

theorem rhs_call_pure_witness:
  "returned (rhs_call [[0, 0, 0], [1, 400, 50, 50, 400, 8, 6, 4]] 0 0 1)
       = Inr (Some [400, 0, 0])
   \<and> snd (rhs_call [[0, 0, 0], [1, 400, 50, 50, 400, 8, 6, 4]] 0 0 1)
       = [[0, 0, 0], [1, 400, 50, 50, 400, 8, 6, 4], [400, 0, 0]]
   \<and> returned (rhs_call [[1, 400, 50, 50, 400, 8, 6, 4], [9], [0, 0, 0]] 2 7 0)
       = Inr (Some [400, 0, 0])"
  using rhs_call_pure [of 0 "[[0, 0, 0], [1, 400, 50, 50, 400, 8, 6, 4]]" 1
      2 "[[1, 400, 50, 50, 400, 8, 6, 4], [9], [0, 0, 0]]" 0 7 0]
  by (simp add: rhs_call_run returned_def)

section \<open>Properties of exact trajectories\<close>

text \<open>
  C7. Take any parameter tuple whose eight constants are all positive and any exact
  trajectory from the zero state \<open>(D, A_1, A_2) = (0, 0, 0)\<close>: functions of time whose
  derivatives at every time \<open>t \<ge> 0\<close> are the rates that the derivative function returns
  there. Then \<open>A_2\<close> is monotonically non-decreasing on an interval \<open>[0, \<epsilon>]\<close> of early
  times, and \<open>A_2\<close> converges as \<open>t\<close> tends to infinity, to the \<open>A_2\<close> component of the
  fixed point.
\<close>

theorem A_2_rises_and_converges:
  fixes D A_1 A_2 dD_dt dA1_dt dA2_dt :: "real \<Rightarrow> real"
  assumes pos: "0 < R_T" "0 < k_on" "0 < k_off" "0 < f" "0 < f_prime" "0 < h" "0 < h_prime" "0 < g"
    and ode: "\<forall>t\<ge>0. rhs [D t, A_1 t, A_2 t] t (R_T, k_on, k_off, f, f_prime, h, h_prime, g)
                  = Inr [dD_dt t, dA1_dt t, dA2_dt t]"
    and D: "\<forall>t\<ge>0. (D has_real_derivative dD_dt t) (at t)"
    and A_1: "\<forall>t\<ge>0. (A_1 has_real_derivative dA1_dt t) (at t)"
    and A_2: "\<forall>t\<ge>0. (A_2 has_real_derivative dA2_dt t) (at t)"
    and init: "D 0 = 0" "A_1 0 = 0" "A_2 0 = 0"
  shows "(\<exists>\<epsilon>>0. \<forall>s t. 0 \<le> s \<and> s \<le> t \<and> t \<le> \<epsilon> \<longrightarrow> A_2 s \<le> A_2 t)
    \<and> (A_2 \<longlongrightarrow> steady_state (R_T, k_on, k_off, f, f_prime, h, h_prime, g) ! 2) at_top"
proof
  show "\<exists>\<epsilon>>0. \<forall>s t. 0 \<le> s \<and> s \<le> t \<and> t \<le> \<epsilon> \<longrightarrow> A_2 s \<le> A_2 t"
    using pos(1,2,4,6) ode D A_1 A_2 init by (rule A_2_early_monotone)
  obtain C c where "0 < c" and "\<forall>t\<ge>0.
      (A_2 t - steady_state (R_T, k_on, k_off, f, f_prime, h, h_prime, g) ! 2)\<^sup>2
        \<le> C * exp (- c * t)"
    using A_2_decay [OF pos ode D A_1 A_2] by blast
  then show "(A_2 \<longlongrightarrow> steady_state (R_T, k_on, k_off, f, f_prime, h, h_prime, g) ! 2) at_top"
    by (rule tendsto_of_square_decay)
qed

text \<open>
  The theorem for the parameters \<open>R_T = 1\<close>, \<open>k_on = 1\<close>, \<open>k_off = 2\<close> and all other
  constants 1, where the trajectory from the zero state has a closed form: there
  \<open>A_2 t = 1/12 - exp (- 4 t)/12 - exp (- t)/6 + exp (- 3 t)/6\<close>, with limit \<open>1/12\<close>.
\<close>

theorem A_2_rises_and_converges_witness:
  "(\<exists>\<epsilon>>0. \<forall>s t. 0 \<le> s \<and> s \<le> t \<and> t \<le> \<epsilon> \<longrightarrow>
       1 / 12 - exp (- 4 * s) / 12 - exp (- s) / 6 + exp (- 3 * s) / 6
         \<le> 1 / 12 - exp (- 4 * t) / 12 - exp (- t) / 6 + exp (- 3 * t) / (6::real))
   \<and> ((\<lambda>t. 1 / 12 - exp (- 4 * t) / 12 - exp (- t) / 6 + exp (- 3 * t) / 6)
        \<longlongrightarrow> (1 / 12 :: real)) at_top"
proof -
  let ?D = "\<lambda>t::real. 1 / 4 - exp (- 4 * t) / 4"
  let ?A_1 = "\<lambda>t::real. 1 / 6 + exp (- 4 * t) / 6 - exp (- t) / 6 - exp (- 3 * t) / 6"
  let ?A_2 = "\<lambda>t::real. 1 / 12 - exp (- 4 * t) / 12 - exp (- t) / 6 + exp (- 3 * t) / 6"
  let ?dD = "\<lambda>t::real. exp (- 4 * t)"
  let ?dA1 = "\<lambda>t::real. - 2 * exp (- 4 * t) / 3 + exp (- t) / 6 + exp (- 3 * t) / 2"
  let ?dA2 = "\<lambda>t::real. exp (- 4 * t) / 3 + exp (- t) / 6 - exp (- 3 * t) / 2"
  have ode: "\<forall>t\<ge>0. rhs [?D t, ?A_1 t, ?A_2 t] t (1, 1, 2, 1, 1, 1, 1, 1)
      = Inr [?dD t, ?dA1 t, ?dA2 t]"
    by simp
  have D: "\<forall>t\<ge>0. (?D has_real_derivative ?dD t) (at t)"
    by (auto intro!: derivative_eq_intros)
  have A_1: "\<forall>t\<ge>0. (?A_1 has_real_derivative ?dA1 t) (at t)"
    by (auto intro!: derivative_eq_intros)
  have A_2: "\<forall>t\<ge>0. (?A_2 has_real_derivative ?dA2 t) (at t)"
    by (auto intro!: derivative_eq_intros)
  have st: "steady_state (1, 1, 2, 1, 1, 1, 1, 1) ! 2 = 1 / 12"
    by (simp add: steady_state_def Let_def)
  show ?thesis
    using A_2_rises_and_converges [of 1 1 2 1 1 1 1 1 ?D ?A_1 ?A_2 ?dD ?dA1 ?dA2, OF _ _ _ _ _ _ _ _ ode D A_1 A_2]
    by (simp add: st)
qed

text \<open>
  C8. Take the notebook's parameters \<open>R_T = 1\<close>, \<open>k_on = 400\<close>, \<open>k_off = 50\<close>, \<open>f = 50\<close>,
  \<open>f_prime = 400\<close>, \<open>h = 8\<close>, \<open>h_prime = 6\<close>, \<open>g = 4\<close> and any exact trajectory on the
  times from 0 to 10 that starts from an occupancy state (non-negative entries of sum at
  most 1), the zero state \<open>(0, 0, 0)\<close> of the notebook among them. Then at the final state,
  at \<open>t = 10\<close>, the derivative function returns three rates that are each within
  \<open>1/1000\<close> of zero.
\<close>

theorem steady_state_at_10:
  fixes D A_1 A_2 dD_dt dA1_dt dA2_dt :: "real \<Rightarrow> real"
  assumes ode: "\<forall>t\<in>{0..10}. rhs [D t, A_1 t, A_2 t] t (1, 400, 50, 50, 400, 8, 6, 4)
                  = Inr [dD_dt t, dA1_dt t, dA2_dt t]"
    and D: "\<forall>t\<in>{0..10}. (D has_real_derivative dD_dt t) (at t)"
    and A_1: "\<forall>t\<in>{0..10}. (A_1 has_real_derivative dA1_dt t) (at t)"
    and A_2: "\<forall>t\<in>{0..10}. (A_2 has_real_derivative dA2_dt t) (at t)"
    and init: "0 \<le> D 0" "0 \<le> A_1 0" "0 \<le> A_2 0" "D 0 + A_1 0 + A_2 0 \<le> 1"
  shows "\<exists>r1 r2 r3. rhs [D 10, A_1 10, A_2 10] 10 (1, 400, 50, 50, 400, 8, 6, 4) = Inr [r1, r2, r3]
    \<and> \<bar>r1\<bar> < 1 / 1000 \<and> \<bar>r2\<bar> < 1 / 1000 \<and> \<bar>r3\<bar> < 1 / 1000"
proof -
  define x1 where "x1 t = D t - 1008 / 1359" for t
  define x2 where "x2 t = A_1 t - 125 / 1359" for t
  define x3 where "x3 t = A_2 t - 100 / 1359" for t
  define V where "V t = (x1 t)\<^sup>2 + 5 * (x2 t)\<^sup>2 + 20 * (x3 t)\<^sup>2" for t
  define V' where "V' t = 2 * x1 t * dD_dt t + 10 * x2 t * dA1_dt t + 40 * x3 t * dA2_dt t" for t
  have rates: "dD_dt t = - 500 * x1 t - 396 * x3 t"
    "dA1_dt t = 50 * x1 t - 408 * x2 t + 6 * x3 t"
    "dA2_dt t = 8 * x2 t - 10 * x3 t"
    if "0 \<le> t" "t \<le> 10" for t
  proof -
    from ode that have "rhs [D t, A_1 t, A_2 t] t (1, 400, 50, 50, 400, 8, 6, 4)
        = Inr [dD_dt t, dA1_dt t, dA2_dt t]"
      by simp
    then show "dD_dt t = - 500 * x1 t - 396 * x3 t"
      "dA1_dt t = 50 * x1 t - 408 * x2 t + 6 * x3 t"
      "dA2_dt t = 8 * x2 t - 10 * x3 t"
      by (simp_all add: x1_def x2_def x3_def)
  qed
  have V_deriv: "(V has_real_derivative V' t) (at t)" if "0 \<le> t" "t \<le> 10" for t
  proof -
    have "(D has_real_derivative dD_dt t) (at t)"
      "(A_1 has_real_derivative dA1_dt t) (at t)"
      "(A_2 has_real_derivative dA2_dt t) (at t)"
      using D A_1 A_2 that by simp_all
    then show ?thesis
      unfolding V_def [abs_def] V'_def x1_def [abs_def] x2_def [abs_def] x3_def [abs_def]
      by (auto intro!: derivative_eq_intros simp: power2_eq_square algebra_simps)
  qed
  have V_decr: "V' t \<le> - 6 * V t" if "0 \<le> t" "t \<le> 10" for t
  proof -
    have "- 6 * V t - V' t = 994 * (x1 t)\<^sup>2 - 500 * x1 t * x2 t + 792 * x1 t * x3 t
        + 4050 * (x2 t)\<^sup>2 - 380 * x2 t * x3 t + 280 * (x3 t)\<^sup>2"
      unfolding V_def V'_def rates [OF that] by (simp add: power2_eq_square algebra_simps)
    then show ?thesis
      using notebook_form_nonneg [of "x1 t" "x2 t" "x3 t"] by simp
  qed
  have "V 10 \<le> V 0 * exp (- 6 * 10)"
  proof (rule exponential_decay)
    show "(V has_real_derivative V' t) (at t)" if "0 \<le> t" "t \<le> 10" for t
      using that by (rule V_deriv)
    show "V' t \<le> - 6 * V t" if "0 \<le> t" "t \<le> 10" for t
      using that by (rule V_decr)
    show "0 \<le> (10::real)" by simp
  qed
  then have decay: "V 10 \<le> V 0 * exp (- 60)" by simp
  have V0: "V 0 \<le> 26"
  proof -
    have "(x1 0)\<^sup>2 \<le> 1"
      unfolding x1_def using init by (intro sq_le_one) simp_all
    moreover have "(x2 0)\<^sup>2 \<le> 1"
      unfolding x2_def using init by (intro sq_le_one) simp_all
    moreover have "(x3 0)\<^sup>2 \<le> 1"
      unfolding x3_def using init by (intro sq_le_one) simp_all
    ultimately show ?thesis unfolding V_def by simp
  qed
  have "V 0 * exp (- 60) \<le> 26 * exp (- 60)"
    using V0 by (intro mult_right_mono) simp_all
  with decay have "V 10 \<le> 26 * exp (- 60)" by (rule order_trans)
  also have "\<dots> \<le> 26 * (1 / 2 ^ 60)"
    by (intro mult_left_mono exp_minus_60) simp
  also have "\<dots> \<le> (1 / 100000000)\<^sup>2" by (simp add: power2_eq_square)
  finally have V10: "V 10 \<le> (1 / 100000000)\<^sup>2" .
  have sq: "(x1 10)\<^sup>2 \<le> V 10" "(x2 10)\<^sup>2 \<le> V 10" "(x3 10)\<^sup>2 \<le> V 10"
    unfolding V_def by simp_all
  have small: "\<bar>x\<bar> \<le> 1 / 100000000" if "x\<^sup>2 \<le> V 10" for x
  proof -
    from that V10 have "x\<^sup>2 \<le> (1 / 100000000)\<^sup>2" by (rule order_trans)
    then have "\<bar>x\<bar> \<le> \<bar>1 / 100000000 :: real\<bar>" by (simp only: abs_le_square_iff)
    then show ?thesis by simp
  qed
  have final: "rhs [D 10, A_1 10, A_2 10] 10 (1, 400, 50, 50, 400, 8, 6, 4)
      = Inr [dD_dt 10, dA1_dt 10, dA2_dt 10]"
    using ode by simp
  have at10: "dD_dt 10 = - 500 * x1 10 - 396 * x3 10"
    "dA1_dt 10 = 50 * x1 10 - 408 * x2 10 + 6 * x3 10"
    "dA2_dt 10 = 8 * x2 10 - 10 * x3 10"
    by (rule rates; simp)+
  have "\<bar>dD_dt 10\<bar> < 1 / 1000" "\<bar>dA1_dt 10\<bar> < 1 / 1000" "\<bar>dA2_dt 10\<bar> < 1 / 1000"
    unfolding at10 using small [OF sq(1)] small [OF sq(2)] small [OF sq(3)] by linarith+
  with final show ?thesis by blast
qed

text \<open>
  The theorem on the constant trajectory that rests at the fixed point of the notebook's
  parameters.
\<close>

theorem steady_state_at_10_witness:
  "\<exists>r1 r2 r3.
     rhs [1008 / 1359, 125 / 1359, 100 / 1359] 10 (1, 400, 50, 50, 400, 8, 6, 4) = Inr [r1, r2, r3]
     \<and> \<bar>r1\<bar> < 1 / 1000 \<and> \<bar>r2\<bar> < 1 / 1000 \<and> \<bar>r3\<bar> < 1 / 1000"
  using steady_state_at_10 [of "\<lambda>t. 1008 / 1359" "\<lambda>t. 125 / 1359" "\<lambda>t. 100 / 1359"
      "\<lambda>t. 0" "\<lambda>t. 0" "\<lambda>t. 0"]
  by simp

section \<open>Properties of the rate of force development\<close>

text \<open>
  C2. For a non-empty trajectory of \<open>A_2\<close> values sampled at the times \<open>time\<close>, let
  \<open>f_max\<close> be the value at the final sampled time and \<open>f_half = (1 - 1/e) * f_max\<close>. If
  \<open>index\<close> is the first index, in time order, whose value is not less than \<open>f_half\<close>, and
  \<open>t_half\<close> is the sample time at that index, then the diagnostic reports the finite
  number \<open>1 / t_half\<close>, provided \<open>t_half\<close> is not zero (where the quotient is an
  infinity, see C5).
\<close>

theorem ktr_first_index:
  assumes nonempty: "A_2 \<noteq> []"
    and sampled: "length time = length A_2"
    and f_max: "f_max = last A_2"
    and f_half: "f_half = (1 - 1 / exp 1) * f_max"
    and inside: "index < length A_2"
    and reached: "\<not> A_2 ! index < f_half"
    and first: "\<forall>j<index. A_2 ! j < f_half"
    and t_half: "t_half = time ! index"
    and nonzero: "t_half \<noteq> 0"
  shows "ktr A_2 time = Inr (Finite (1 / t_half))"
proof -
  have "A_2 ! (length A_2 - 1) = f_max"
    using nonempty f_max by (simp add: last_conv_nth)
  moreover have "scan A_2 f_half 0 = Inr index"
    using inside reached first by (intro scan_first) simp_all
  ultimately show ?thesis
    using nonempty sampled inside f_half t_half nonzero
    by (simp add: ktr_def np_true_divide_def)
qed

text \<open>
  The theorem on the trajectory 0, 1 sampled at the times 0 and 10: the threshold is
  first reached at index 1, so the rate is one tenth.
\<close>

theorem ktr_first_index_witness:
  "ktr [0, 1] [0, 10] = Inr (Finite (1 / 10))"
  using ktr_first_index [of "[0, 1]" "[0, 10]" 1 "1 - 1 / exp 1" 1 10]
  by simp

text \<open>
  C9. For every non-empty sampled \<open>A_2\<close> sequence whose final value is not negative, the
  scan stops at an index inside the sequence, and the diagnostic, given as many sample
  times, reports a value rather than running off the end. So the scan can run off the end
  only when the final value is negative.
\<close>

theorem scan_in_bounds:
  assumes "A_2 \<noteq> []" and "0 \<le> last A_2" and "length time = length A_2"
  shows "(\<exists>index. index < length A_2
            \<and> scan A_2 ((1 - 1 / exp 1) * last A_2) 0 = Inr index)
    \<and> (\<exists>k_dev. ktr A_2 time = Inr k_dev)"
proof -
  let ?fh = "(1 - 1 / exp 1) * last A_2"
  have last_eq: "A_2 ! (length A_2 - 1) = last A_2"
    using assms(1) by (simp add: last_conv_nth)
  have last_ok: "\<not> A_2 ! (length A_2 - 1) < ?fh"
    unfolding last_eq using assms(2) f_half_le_f_max [of "last A_2"] by simp
  have no_error: "scan A_2 ?fh 0 \<noteq> Inl e" for e
  proof
    assume "scan A_2 ?fh 0 = Inl e"
    then have "\<forall>j. 0 \<le> j \<and> j < length A_2 \<longrightarrow> A_2 ! j < ?fh"
      by (rule scan_Inl)
    with assms(1) have "A_2 ! (length A_2 - 1) < ?fh" by simp
    with last_ok show False by simp
  qed
  then obtain index where index: "scan A_2 ?fh 0 = Inr index"
    by (cases "scan A_2 ?fh 0") auto
  then have bound: "index < length A_2" by (rule scan_Inr_in_bounds)
  with index assms(1,3) last_eq
  have "ktr A_2 time = Inr (np_true_divide 1 (time ! index))"
    by (simp add: ktr_def)
  with index bound show ?thesis by blast
qed

text \<open>The theorem on the trajectory 0, 2 sampled at the times 0 and 4.\<close>

theorem scan_in_bounds_witness:
  "(\<exists>index. index < length [0, 2 :: real]
       \<and> scan [0, 2] ((1 - 1 / exp 1) * last [0, 2]) 0 = Inr index)
    \<and> (\<exists>k_dev. ktr [0, 2] [0, 4] = Inr k_dev)"
  using scan_in_bounds [of "[0, 2]" "[0, 4]"] by simp

text \<open>
  C4, as amended. For every trajectory in which every sample of \<open>A_2\<close> is below
  \<open>f_half\<close>, the diagnostic raises the out-of-bounds error (Python's IndexError, raised
  by the read \<^verbatim>\<open>A_2[index]\<close> past the end) and returns no value.
\<close>

theorem ktr_never_reaches:
  assumes "\<forall>i<length A_2. A_2 ! i < (1 - 1 / exp 1) * last A_2"
  shows "ktr A_2 time = Inl IndexError"
proof (cases "A_2 = []")
  case True
  then show ?thesis by (simp add: ktr_def)
next
  case False
  then have "A_2 ! (length A_2 - 1) = last A_2"
    by (simp add: last_conv_nth)
  moreover have "scan A_2 ((1 - 1 / exp 1) * last A_2) 0 = Inl IndexError"
    using assms by (intro scan_none) simp
  ultimately show ?thesis
    using False by (simp add: ktr_def)
qed

text \<open>
  The theorem on a one-sample trajectory with a negative value: there \<open>f_half\<close> is about
  \<open>-0.632\<close> and the only sample, \<open>-1\<close>, is below it.
\<close>

theorem ktr_never_reaches_witness:
  "ktr [- 1] [0] = Inl IndexError"
  using ktr_never_reaches [of "[- 1]" "[0]"]
  by (simp add: algebra_simps divide_neg_pos)

text \<open>
  The constant-zero trajectory is not such a trajectory: its \<open>f_half\<close> is 0, the first
  sample is not less than 0, the scan stops at index 0, and no out-of-bounds error is
  raised. Sampled from time 0 on, the diagnostic reports an infinity.
\<close>

theorem ktr_constant_zero: "ktr [0, 0, 0] [0, 1, 2] = Inr PosInf"
  by (simp add: ktr_def scan.simps np_true_divide_def)

text \<open>
  C5, as amended. For every trajectory in which the threshold is reached at the first
  sample and the first sample time is 0, so that \<open>t_half = 0\<close>, the diagnostic raises
  nothing: the unguarded division \<^verbatim>\<open>1 / t_half\<close> by a numpy scalar yields positive
  infinity, and that is what is reported.
\<close>

theorem ktr_t_half_zero:
  assumes "A_2 \<noteq> []" and "time \<noteq> []"
    and "\<not> A_2 ! 0 < (1 - 1 / exp 1) * last A_2"
    and "time ! 0 = 0"
  shows "ktr A_2 time = Inr PosInf"
proof -
  have "A_2 ! (length A_2 - 1) = last A_2"
    using assms(1) by (simp add: last_conv_nth)
  moreover have "scan A_2 ((1 - 1 / exp 1) * last A_2) 0 = Inr 0"
    using assms(1,3) by (subst scan.simps) simp
  ultimately show ?thesis
    using assms by (simp add: ktr_def np_true_divide_def)
qed

text \<open>The theorem on the constant trajectory 5, 5 sampled at the times 0 and 10.\<close>

theorem ktr_t_half_zero_witness:
  "ktr [5, 5] [0, 10] = Inr PosInf"
  using ktr_t_half_zero [of "[5, 5]" "[0, 10]"]
  by simp

text \<open>
  A trajectory that is already at its final value at time 0: the result is an infinity,
  not an error.
\<close>

theorem ktr_first_sample_infinity: "ktr [1, 1] [0, 1] = Inr PosInf"
  by (simp add: ktr_def scan.simps np_true_divide_def)

section \<open>Properties of the widget\<close>

text \<open>
  C10, as amended. The widget exposes four of the eight parameters as sliders, \<open>k_on\<close>,
  \<open>f\<close>, \<open>h\<close> and \<open>g\<close>. On every invocation, and whatever the integrator is, it fixes
  \<open>R_T = 1\<close>, \<open>k_off = 50\<close>, \<open>f_prime = 400\<close>, \<open>h_prime = 6\<close>, the zero initial state
  and a time grid of 5000 samples from 0 to 10, passes the integrator the full
  eight-value tuple made of the four slider values and these four fixed values, and
  computes the diagnostic from the \<open>A_2\<close> column of what the integrator returns.
\<close>

theorem solve_and_plot_pipeline:
  "solve_and_plot odeint_fn k_on f h g =
     ktr (map (\<lambda>(D, A_1, A_2). A_2)
            (odeint_fn rhs [0, 0, 0] (linspace 0 10 5000) (1, k_on, 50, f, 400, h, 6, g)))
         (linspace 0 10 5000)
   \<and> solve_and_plot_args k_on f h g
       = ([0, 0, 0], linspace 0 10 5000, (1, k_on, 50, f, 400, h, 6, g))
   \<and> length (linspace 0 10 5000) = 5000
   \<and> linspace 0 10 5000 ! 0 = 0
   \<and> last (linspace 0 10 5000) = 10
   \<and> display = [''k_on'', ''f'', ''h'', ''g'']"
  by (simp add: solve_and_plot_def solve_and_plot_args_def linspace_length linspace_first
      linspace_last display_def)

text \<open>
  With the slider values 1, 2, 3, 4: the second slider is not \<open>k_off\<close>, its value 2 is
  passed as \<open>f\<close> and not as \<open>k_off\<close>, and the grid does not have 1000 samples.
\<close>

theorem solve_and_plot_not_as_claimed:
  "display \<noteq> [''k_on'', ''k_off'', ''h'', ''g'']
   \<and> snd (snd (solve_and_plot_args 1 2 3 4)) \<noteq> (1, 1, 2, 50, 400, 3, 6, 4)
   \<and> length (fst (snd (solve_and_plot_args 1 2 3 4))) \<noteq> 1000"
  by (simp add: solve_and_plot_args_def linspace_length display_def)

end
